theory Spec2Isabelle
  imports Complex_Main
begin

section \<open>Values and errors\<close>

text \<open>
  The Python sources compute with numpy floats.  They are modelled by the real
  numbers: rounding, overflow and NaN are outside this development.  A raised
  exception is a value of type \<open>error\<close>; a function that can raise
  returns \<open>error + 'a\<close> with \<open>Inl\<close> for the exception.
\<close>

datatype error =
  ValueError | TypeError | NameError | AttributeError | IndexError | ZeroDivisionError

text \<open>
  An argument that the profile generators test with \<open>isinstance\<close>: a
  single number, or a sequence of numbers.
\<close>

datatype pyarg = Scalar real | Seq "real list"

text \<open>
  A control handed to \<open>Entry.dynamics\<close>: either a sequence of numbers,
  which the dynamic models unpack into three components, or a function of state
  and time, which is what \<open>HEPCost\<close> passes.
\<close>

datatype control = Vec "real list" | Fun "real list \<Rightarrow> real \<Rightarrow> error + pyarg"

text \<open>
  An attribute whose class is not part of the sources (\<open>Planet.omega\<close>): a
  stored number or a callable.
\<close>

datatype attr = Number real | Callable "real \<Rightarrow> real"

section \<open>EntryEquations.py\<close>

text \<open>
  \<open>Planet\<close> and \<open>EntryVehicle\<close> are imported classes; only the
  attributes and methods that the sources use are fields here.
  \<open>atmosphere h\<close> is \<open>(rho, a)\<close>,
  \<open>aerodynamic_coefficients M\<close> is \<open>(cD, cL)\<close>, and
  \<open>range_km lon0 lat0 heading0 lonc latc\<close> is
  \<open>planet.range(..., km=True)\<close>, the pair \<open>(dr, cr)\<close>.
\<close>

record Planet =
  radius :: real
  mu :: real
  omega :: attr
  atmosphere :: "real \<Rightarrow> real \<times> real"
  range_km :: "real \<Rightarrow> real \<Rightarrow> real \<Rightarrow> real \<Rightarrow> real \<Rightarrow> real \<times> real"

record EntryVehicle =
  area :: real
  mass :: real
  ThrustApplied :: real
  aerodynamic_coefficients :: "real \<Rightarrow> real \<times> real"
  mdot :: "real \<Rightarrow> real"

text \<open>
  The bound method stored in \<open>self.dyn_model\<close>.  The attribute is absent
  (\<open>None\<close>) when the constructor never assigned it.
\<close>

datatype dyn_model = Entry_3dof | Entry_vinhs

record Entry =
  planet :: Planet
  vehicle :: EntryVehicle
  powered :: bool
  drag_ratio :: real
  lift_ratio :: real
  dyn_model :: "dyn_model option"

text \<open>
  \<open>Entry.__init__\<close>.  \<open>DegFreedom == 2\<close> reads the attribute
  \<open>self.__entry_2dof\<close>, which the class does not define, so the assignment
  raises AttributeError.  Any value other than 2 and 3 prints a message and
  returns.  The result is the object together with the lines printed.
\<close>

definition Entry_init ::
  "Planet \<Rightarrow> EntryVehicle \<Rightarrow> bool \<Rightarrow> int \<Rightarrow> bool \<Rightarrow> error + (Entry \<times> string list)" where
  "Entry_init PlanetModel VehicleModel Coriolis DegFreedom Powered =
     (let self = \<lparr>planet = PlanetModel, vehicle = VehicleModel, powered = Powered,
                   drag_ratio = 1, lift_ratio = 1, dyn_model = None\<rparr>
      in if DegFreedom = 2 then Inl AttributeError
         else if DegFreedom = 3 then
           (if Coriolis then Inr (self\<lparr>dyn_model := Some Entry_vinhs\<rparr>, [])
            else Inr (self\<lparr>dyn_model := Some Entry_3dof\<rparr>, []))
         else Inr (self, [''Inapproriate number of degrees of freedom.'']))"

definition update_ratios :: "Entry \<Rightarrow> real \<Rightarrow> real \<Rightarrow> Entry" where
  "update_ratios self LR DR = self\<lparr>drag_ratio := DR, lift_ratio := LR\<rparr>"

definition ignite :: "Entry \<Rightarrow> Entry" where
  "ignite self = self\<lparr>powered := True\<rparr>"

text \<open>
  \<open>__entry_3dof\<close>: the state is unpacked into eight components and the
  control into three; a sequence of another length raises ValueError and a
  control that is a function raises TypeError.
\<close>

definition entry_3dof :: "Entry \<Rightarrow> real list \<Rightarrow> real \<Rightarrow> control \<Rightarrow> error + real list" where
  "entry_3dof self x t u =
     (case x of
        [r, theta, phi, v, gamma, psi, s, m] \<Rightarrow>
          (case u of
             Fun _ \<Rightarrow> Inl TypeError
           | Vec [sigma, throttle, mu'] \<Rightarrow>
               (let h = r - radius (planet self);
                    g = mu (planet self) / r\<^sup>2;
                    (rho, a) = atmosphere (planet self) h;
                    M = v / a;
                    (cD, cL) = aerodynamic_coefficients (vehicle self) M;
                    f = 0.5 * rho * area (vehicle self) * v\<^sup>2 / mass (vehicle self);
                    L = f * cL * lift_ratio self;
                    D = f * cD * drag_ratio self;
                    dh = v * sin gamma;
                    dtheta = v * cos gamma * cos psi / r / cos phi;
                    dphi = v * cos gamma * sin psi / r;
                    dv = - D - g * sin gamma;
                    dgamma = L / v * cos sigma + cos gamma * (v / r - g / v);
                    dpsi = - L * sin sigma / v / cos gamma - v * cos gamma * cos psi * tan phi / r;
                    ds = - v / r * radius (planet self) * cos gamma;
                    dm = mdot (vehicle self) throttle
                in Inr [dh, dtheta, dphi, dv, dgamma, dpsi, ds, dm])
           | Vec _ \<Rightarrow> Inl ValueError)
      | _ \<Rightarrow> Inl ValueError)"

text \<open>
  Arithmetic on \<open>self.planet.omega\<close>: multiplying a callable by a number
  and calling a number both raise TypeError.
\<close>

definition attr_times :: "real \<Rightarrow> attr \<Rightarrow> error + real" where
  "attr_times c a = (case a of Number w \<Rightarrow> Inr (c * w) | Callable _ \<Rightarrow> Inl TypeError)"

definition attr_call :: "attr \<Rightarrow> real \<Rightarrow> error + real" where
  "attr_call a y = (case a of Callable f \<Rightarrow> Inr (f y) | Number _ \<Rightarrow> Inl TypeError)"

text \<open>
  The name \<open>control_fun\<close> is read in \<open>__entry_vinhs\<close> but is bound
  neither in the method nor in the module, so evaluating it raises NameError.
\<close>

definition control_fun :: "error + control" where
  "control_fun = Inl NameError"

text \<open>Addition of two numpy arrays of one shape.\<close>

definition vec_add :: "real list \<Rightarrow> real list \<Rightarrow> real list" where
  "vec_add a b = map2 (+) a b"

text \<open>\<open>__entry_vinhs\<close>, statement by statement.\<close>

definition entry_vinhs :: "Entry \<Rightarrow> real list \<Rightarrow> real \<Rightarrow> control \<Rightarrow> error + real list" where
  "entry_vinhs self x t u =
     (case x of
        [r, theta, phi, v, gamma, psi, s, m] \<Rightarrow>
          (case attr_times 2 (omega (planet self)) of
             Inl e \<Rightarrow> Inl e
           | Inr w2 \<Rightarrow>
               (let dgamma = w2 * cos psi * cos phi in
                case attr_call (omega (planet self)) (tan gamma * cos phi * sin psi - sin phi) of
                  Inl e \<Rightarrow> Inl e
                | Inr oc \<Rightarrow>
                    (let dpsi = 2 * oc in
                     case control_fun of
                       Inl e \<Rightarrow> Inl e
                     | Inr cf \<Rightarrow>
                         (case entry_3dof self x t cf of
                            Inl e \<Rightarrow> Inl e
                          | Inr base \<Rightarrow> Inr (vec_add base [0, 0, 0, 0, dgamma, dpsi, 0, 0])))))
      | _ \<Rightarrow> Inl ValueError)"

definition thrust_3dof :: "Entry \<Rightarrow> real list \<Rightarrow> control \<Rightarrow> error + real list" where
  "thrust_3dof self x u =
     (case x of
        [r, theta, phi, v, gamma, psi, s, m] \<Rightarrow>
          (case u of
             Fun _ \<Rightarrow> Inl TypeError
           | Vec [sigma, throttle, thrustAngle] \<Rightarrow>
               Inr [0, 0, 0,
                    ThrustApplied (vehicle self) * throttle * cos (thrustAngle - gamma) / m,
                    ThrustApplied (vehicle self) * throttle * sin (thrustAngle - gamma) / (m * v),
                    0, 0,
                    mdot (vehicle self) throttle]
           | Vec _ \<Rightarrow> Inl ValueError)
      | _ \<Rightarrow> Inl ValueError)"

text \<open>
  The call \<open>self.dyn_model(x, t, u)\<close>: AttributeError when the constructor
  left the attribute unset.
\<close>

definition call_dyn_model :: "Entry \<Rightarrow> real list \<Rightarrow> real \<Rightarrow> control \<Rightarrow> error + real list" where
  "call_dyn_model self x t u =
     (case dyn_model self of
        None \<Rightarrow> Inl AttributeError
      | Some Entry_3dof \<Rightarrow> entry_3dof self x t u
      | Some Entry_vinhs \<Rightarrow> entry_vinhs self x t u)"

text \<open>\<open>Entry.dynamics(u)\<close> applied to \<open>x\<close> and \<open>t\<close>.\<close>

definition dynamics :: "Entry \<Rightarrow> control \<Rightarrow> real list \<Rightarrow> real \<Rightarrow> error + real list" where
  "dynamics self u x t =
     (if powered self then
        (case call_dyn_model self x t u of
           Inl e \<Rightarrow> Inl e
         | Inr d \<Rightarrow>
             (case thrust_3dof self x u of
                Inl e \<Rightarrow> Inl e
              | Inr th \<Rightarrow> Inr (vec_add d th)))
      else call_dyn_model self x t u)"

definition altitude :: "Entry \<Rightarrow> real \<Rightarrow> bool \<Rightarrow> real" where
  "altitude self r km =
     (if km then (r - radius (planet self)) / 1000 else r - radius (planet self))"

text \<open>
  \<open>energy\<close> on arrays \<open>r\<close> and \<open>v\<close> of one length; the
  normalisation reads the first and the last element.
\<close>

definition energy :: "Entry \<Rightarrow> real list \<Rightarrow> real list \<Rightarrow> bool \<Rightarrow> error + real list" where
  "energy self r v Normalized =
     (let E = map2 (\<lambda>ri vi. 0.5 * vi\<^sup>2 + mu (planet self) / radius (planet self)
                               - mu (planet self) / ri\<^sup>2) r v
      in if Normalized then
           (case E of
              [] \<Rightarrow> Inl IndexError
            | e0 # _ \<Rightarrow> Inr (map (\<lambda>e. (e - e0) / (last E - e0)) E))
         else Inr E)"

text \<open>
  The loop of \<open>aeroforces\<close> over \<open>enumerate(h)\<close>; \<open>v[i]\<close> raises
  IndexError when \<open>v\<close> is shorter than \<open>h\<close>.
\<close>

fun aeroforces_loop :: "Entry \<Rightarrow> real list \<Rightarrow> nat \<Rightarrow> real list \<Rightarrow> error + (real list \<times> real list)" where
  "aeroforces_loop self v i [] = Inr ([], [])"
| "aeroforces_loop self v i (hi # hs) =
     (if i < length v then
        (let (rho, a) = atmosphere (planet self) hi;
             M = v ! i / a;
             (cD, cL) = aerodynamic_coefficients (vehicle self) M;
             f = 0.5 * rho * area (vehicle self) * (v ! i)\<^sup>2 / mass (vehicle self)
         in case aeroforces_loop self v (Suc i) hs of
              Inl e \<Rightarrow> Inl e
            | Inr (L, D) \<Rightarrow> Inr (f * cL # L, f * cD # D))
      else Inl IndexError)"

definition aeroforces :: "Entry \<Rightarrow> real list \<Rightarrow> real list \<Rightarrow> error + (real list \<times> real list)" where
  "aeroforces self r v =
     (let h = map (\<lambda>ri. ri - radius (planet self)) r
      in aeroforces_loop self v 0 h)"

text \<open>
  The composite system.  \<open>FadingMemory\<close> is imported from a module that is not
  part of the sources, so \<open>__filterUpdate\<close> takes it as a parameter
  \<open>fm currentValue measuredValue gain\<close>.
\<close>

record System =
  model :: Entry
  truth :: Entry
  nav :: Entry
  gain :: real

definition setFilterGain :: "System \<Rightarrow> real \<Rightarrow> System" where
  "setFilterGain self g = self\<lparr>gain := g\<rparr>"

definition filterUpdate ::
  "(real \<Rightarrow> real \<Rightarrow> real \<Rightarrow> real) \<Rightarrow> System \<Rightarrow> real list \<Rightarrow> real \<Rightarrow> error + real list" where
  "filterUpdate fm self x t =
     (if length x \<le> 17 then Inl IndexError
      else
        (let RL = x ! 16;
             RD = x ! 17
         in case aeroforces (model self) [x ! 8] [x ! 11] of
              Inl e \<Rightarrow> Inl e
            | Inr (L, D) \<Rightarrow>
                (case aeroforces (nav self) [x ! 8] [x ! 11] of
                   Inl e \<Rightarrow> Inl e
                 | Inr (Lm, Dm) \<Rightarrow>
                     (if L = [] \<or> D = [] \<or> Lm = [] \<or> Dm = [] then Inl IndexError
                      else
                        (let dRL = fm RL (hd Lm / hd L) (gain self);
                             dRD = fm RD (hd Dm / hd D) (gain self)
                         in Inr [dRL, dRD])))))"

text \<open>
  Modelled from the spec: \<open>FadingMemory\<close> of the absent module
  \<open>Filter\<close>, "returns the instantaneous derivative
  gain \<times> (measured - current)".
\<close>

definition FadingMemory :: "real \<Rightarrow> real \<Rightarrow> real \<Rightarrow> real" where
  "FadingMemory currentValue measuredValue g = g * (measuredValue - currentValue)"

section \<open>ParametrizedPlanner.py\<close>

text \<open>\<open>np.radians\<close>.\<close>

definition radians :: "real \<Rightarrow> real" where
  "radians d = d * pi / 180"

text \<open>The default values of the keyword arguments \<open>minBank\<close> and \<open>maxBank\<close>.\<close>

definition default_minBank :: real where
  "default_minBank = radians 15"

definition default_maxBank :: real where
  "default_maxBank = radians 85"

text \<open>
  The \<open>isinstance\<close> test at the head of each generator: a number is wrapped
  into a one-element list and \<open>isScalar\<close> is set.
\<close>

definition as_sequence :: "pyarg \<Rightarrow> real list \<times> bool" where
  "as_sequence T = (case T of Scalar t \<Rightarrow> ([t], True) | Seq ts \<Rightarrow> (ts, False))"

text \<open>
  The tail shared by \<open>HEPBankReduced\<close> and \<open>HEPBank\<close>: with
  \<open>isScalar\<close> the first element is returned, and the \<open>except\<close> branch
  returns \<open>-1.\<close> when there is none.
\<close>

definition return_bank :: "bool \<Rightarrow> real list \<Rightarrow> pyarg" where
  "return_bank isScalar bank =
     (if isScalar then (case bank of b # _ \<Rightarrow> Scalar b | [] \<Rightarrow> Scalar (- 1))
      else Seq bank)"

text \<open>The body of the loop of \<open>HEPBankReduced\<close> for one \<open>t\<close>.\<close>

definition HEPBankReduced_at :: "real \<Rightarrow> real \<Rightarrow> real \<Rightarrow> real \<Rightarrow> real \<Rightarrow> real" where
  "HEPBankReduced_at t t1 t2 minBank maxBank =
     (let maxRate = radians 20;
          ti1 = t1 + 2 * maxBank / maxRate;
          ti2 = t2 + (maxBank + minBank) / maxRate
      in if t \<le> t1 then maxBank
         else if t \<ge> t1 \<and> t \<le> ti1 then maxBank - maxRate * (t - t1)
         else if t \<ge> ti1 \<and> t \<le> t2 then - maxBank
         else if t \<ge> t2 \<and> t \<le> ti2 then - maxBank + maxRate * (t - t2)
         else minBank)"

definition HEPBankReduced :: "pyarg \<Rightarrow> real \<Rightarrow> real \<Rightarrow> real \<Rightarrow> real \<Rightarrow> pyarg" where
  "HEPBankReduced T t1 t2 minBank maxBank =
     (let (T', isScalar) = as_sequence T;
          bank = map (\<lambda>t. HEPBankReduced_at t t1 t2 minBank maxBank) T'
      in return_bank isScalar bank)"

text \<open>The body of the loop of \<open>HEPBankReducedSmooth\<close> for one \<open>t\<close>.\<close>

definition HEPBankReducedSmooth_at :: "real \<Rightarrow> real \<Rightarrow> real \<Rightarrow> real \<Rightarrow> real \<Rightarrow> real" where
  "HEPBankReducedSmooth_at t t1 t2 minBank maxBank =
     (let maxRate = radians 20;
          maxAcc = radians 5;
          dt = maxRate / maxAcc;
          dbank = 0.5 * maxRate\<^sup>2 / maxAcc;
          t1a = t1 + dt;
          t1v = t1 + 2 * maxBank / maxRate;
          t1d = t1v + dt;
          t2a = t2 + dt;
          t2v = t2 + (minBank + maxBank) / maxRate;
          t2d = t2v + dt
      in if t \<le> t1 then maxBank
         else if t > t1 \<and> t \<le> t1a then maxBank - 0.5 * maxAcc * (t - t1)\<^sup>2
         else if t > t1a \<and> t \<le> t1v then maxBank - dbank - maxRate * (t - t1a)
         else if t > t1v \<and> t \<le> t1d then
           dbank - maxBank - maxRate * (t - t1v) + 0.5 * maxAcc * (t - t1v)\<^sup>2
         else if t > t1d \<and> t \<le> t2 then - maxBank
         else if t > t2 \<and> t \<le> t2a then - maxBank + 0.5 * maxAcc * (t - t2)\<^sup>2
         else if t > t2a \<and> t \<le> t2v then dbank - maxBank + maxRate * (t - t2a)
         else if t > t2v \<and> t \<le> t2d then
           minBank - dbank + maxRate * (t - t2v) - 0.5 * maxAcc * (t - t2v)\<^sup>2
         else minBank)"

text \<open>
  \<open>HEPBankReducedSmooth\<close> sets \<open>isScalar\<close> like the other two but
  ends with \<open>return bank\<close>: the list is returned in both cases.
\<close>

definition HEPBankReducedSmooth :: "pyarg \<Rightarrow> real \<Rightarrow> real \<Rightarrow> real \<Rightarrow> real \<Rightarrow> pyarg" where
  "HEPBankReducedSmooth T t1 t2 minBank maxBank =
     (let (T', isScalar) = as_sequence T;
          bank = map (\<lambda>t. HEPBankReducedSmooth_at t t1 t2 minBank maxBank) T'
      in Seq bank)"

text \<open>The body of the loop of \<open>HEPBank\<close> for one \<open>t\<close>.\<close>

definition HEPBank_at :: "real \<Rightarrow> real \<Rightarrow> real \<Rightarrow> real \<Rightarrow> real \<Rightarrow> real \<Rightarrow> real" where
  "HEPBank_at t t1 t2 t3 minBank maxBank =
     (let maxRate = radians 20;
          ti1 = t1 + (maxBank + minBank) / maxRate;
          ti2 = t2 + 2 * maxBank / maxRate;
          ti3 = t3 + (maxBank + minBank) / maxRate
      in if t < t1 \<and> t \<ge> 0 then - minBank
         else if t \<ge> t1 \<and> t \<le> ti1 then - minBank + maxRate * (t - t1)
         else if t \<ge> ti1 \<and> t \<le> t2 then maxBank
         else if t \<ge> t2 \<and> t \<le> ti2 then maxBank - maxRate * (t - t2)
         else if t \<ge> ti2 \<and> t \<le> t3 then - maxBank
         else if t \<ge> t3 \<and> t \<le> ti3 then - maxBank + maxRate * (t - t3)
         else minBank)"

definition HEPBank :: "pyarg \<Rightarrow> real \<Rightarrow> real \<Rightarrow> real \<Rightarrow> real \<Rightarrow> real \<Rightarrow> pyarg" where
  "HEPBank T t1 t2 t3 minBank maxBank =
     (let (T', isScalar) = as_sequence T;
          bank = map (\<lambda>t. HEPBank_at t t1 t2 t3 minBank maxBank) T'
      in return_bank isScalar bank)"

text \<open>\<open>np.diff\<close> of a one-dimensional array.\<close>

definition diff :: "real list \<Rightarrow> real list" where
  "diff T = map2 (\<lambda>b a. b - a) (tl T) T"

definition checkFeasibility :: "real list \<Rightarrow> real \<Rightarrow> real" where
  "checkFeasibility T sign =
     (let sig = map (\<lambda>d. sign * d) (diff T);
          cost = (sum_list (map (\<lambda>s. s + \<bar>s\<bar>) sig) + sum_list (map (\<lambda>t. \<bar>t\<bar> - t) T)) * 100000
      in if cost \<noteq> 0 then max cost 10000000 else 0)"

text \<open>
  A call \<open>bank(iv, *T)\<close>: the switch times fill the positional parameters
  after the first, the defaults fill the rest, and a wrong number of arguments
  raises TypeError.
\<close>

definition HEPBank_star :: "pyarg \<Rightarrow> real list \<Rightarrow> error + pyarg" where
  "HEPBank_star iv T =
     (case T of
        [t1, t2, t3] \<Rightarrow> Inr (HEPBank iv t1 t2 t3 default_minBank default_maxBank)
      | [t1, t2, t3, minBank] \<Rightarrow> Inr (HEPBank iv t1 t2 t3 minBank default_maxBank)
      | [t1, t2, t3, minBank, maxBank] \<Rightarrow> Inr (HEPBank iv t1 t2 t3 minBank maxBank)
      | _ \<Rightarrow> Inl TypeError)"

text \<open>\<open>np.linspace(a, b, n)\<close> for \<open>n > 1\<close>.\<close>

definition linspace :: "real \<Rightarrow> real \<Rightarrow> nat \<Rightarrow> real list" where
  "linspace a b n = map (\<lambda>i. a + (b - a) * real i / real (n - 1)) [0..<n]"

text \<open>
  Indexing a sequence with a Python integer: a negative index counts from the
  end, and an index out of range raises IndexError.
\<close>

definition py_index :: "'a list \<Rightarrow> int \<Rightarrow> error + 'a" where
  "py_index xs i =
     (if 0 \<le> i \<and> i < int (length xs) then Inr (xs ! nat i)
      else if i < 0 \<and> - int (length xs) \<le> i then Inr (xs ! nat (int (length xs) + i))
      else Inl IndexError)"

record Target =
  DR :: real
  CR :: real

text \<open>
  \<open>HEPCost\<close>.  \<open>odeint\<close> and \<open>findTriggerPoint\<close> are imported, so
  they are parameters: \<open>odeint f x0 time\<close> is the array of states, one row per
  time, or the exception that the integration raised.  The first component of
  the result counts the calls of \<open>odeint\<close>.
\<close>

definition HEPCost ::
  "((real list \<Rightarrow> real \<Rightarrow> error + real list) \<Rightarrow> real list \<Rightarrow> real list \<Rightarrow> error + real list list) \<Rightarrow>
   (real list list \<Rightarrow> real list \<Rightarrow> int) \<Rightarrow>
   real list \<Rightarrow> real list \<Rightarrow> Entry \<Rightarrow> Target \<Rightarrow>
   (pyarg \<Rightarrow> real list \<Rightarrow> error + pyarg) \<Rightarrow> (real list \<Rightarrow> real \<Rightarrow> real) \<Rightarrow> (real list \<Rightarrow> real) \<Rightarrow>
   nat \<times> (error + real)" where
  "HEPCost odeint findTriggerPoint T x0 entry target bank getIV check =
     (let J = check T
      in if J > 300 then (0, Inr J)
         else
           (let hep = Fun (\<lambda>x t. bank (Scalar (getIV x t)) T);
                time = linspace 0 450 1000
            in case odeint (dynamics entry hep) x0 time of
                 Inl e \<Rightarrow> (1, Inl e)
               | Inr X \<Rightarrow>
                   (let idx = findTriggerPoint X time - 1
                    in case py_index X idx of
                         Inl e \<Rightarrow> (1, Inl e)
                       | Inr row \<Rightarrow>
                           (if length row \<le> 2 \<or> length x0 \<le> 5 then (1, Inl IndexError)
                            else
                              (let h = altitude entry (row ! 0) True;
                                   (dr, cr) = range_km (planet entry) (x0 ! 1) (x0 ! 2) (x0 ! 5)
                                                (row ! 1) (row ! 2);
                                   Wh = 0.8 * (1 / 1000000);
                                   J = - h * Wh + sqrt ((DR target - dr)\<^sup>2 + (CR target - cr)\<^sup>2)
                               in (1, Inr J))))))"

section \<open>MPC.py\<close>

definition "constant" :: "'a \<Rightarrow> 'a" where
  "constant value = value"

text \<open>
  The dictionary built by \<open>options\<close>, with keys \<open>'N'\<close>, \<open>'T'\<close> and
  \<open>'dt'\<close>.
\<close>

record control_options =
  opt_N :: int
  opt_T :: real
  opt_dt :: real

definition options :: "int \<Rightarrow> real \<Rightarrow> error + control_options" where
  "options n horizon =
     (if n = 0 then Inl ZeroDivisionError
      else Inr \<lparr>opt_N = n, opt_T = horizon, opt_dt = horizon / real_of_int n\<rparr>)"

definition lateral :: "real \<Rightarrow> real \<Rightarrow> real \<Rightarrow> real \<Rightarrow> real" where
  "lateral velocity drag fpa horizon =
     (let vdot = drag * sin fpa - 3.7;
          vf = velocity + horizon * vdot
      in vf)"

text \<open>
  The reference data, keys \<open>'bank'\<close> and \<open>'drag'\<close>, and the keyword
  arguments that \<open>controller\<close> reads.
\<close>

record references =
  ref_bank :: "real \<Rightarrow> real"
  ref_drag :: "real \<Rightarrow> real"

record 'r controller_kwargs =
  kw_current_state :: "real list"
  kw_aero_ratios :: 'r
  kw_velocity :: real
  kw_drag :: real
  kw_fpa :: real

text \<open>
  The result object of the optimizers; only its attribute \<open>x\<close> is read.
\<close>

datatype OptimizeResult = OptimizeResult (sol_x: pyarg)

text \<open>Column \<open>k\<close> of a two-dimensional array given by its rows.\<close>

definition column :: "real list list \<Rightarrow> nat \<Rightarrow> error + real list" where
  "column out k =
     (if list_all (\<lambda>row. k < length row) out then Inr (map (\<lambda>row. row ! k) out)
      else Inl IndexError)"

text \<open>\<open>scipy.integrate.trapz(y, x)\<close>.\<close>

definition trapz :: "real list \<Rightarrow> real list \<Rightarrow> real" where
  "trapz y x = sum_list (map2 (\<lambda>d ysum. d * ysum / 2) (diff x) (map2 (+) (tl y) y))"

text \<open>
  \<open>cost\<close>.  \<open>sim_run state controls ratios\<close> stands for
  \<open>sim.run(state, controls, AeroRatios=ratios)\<close> of the imported class
  \<open>Simulation\<close>; each control is the constant function of the value listed.
\<close>

definition cost ::
  "pyarg \<Rightarrow> (real list \<Rightarrow> pyarg list \<Rightarrow> 'r \<Rightarrow> real list list) \<Rightarrow> real list \<Rightarrow> 'r \<Rightarrow> references \<Rightarrow> bool \<Rightarrow>
   error + real" where
  "cost u sim_run state ratios reference scalar =
     (case (if scalar then Inr [constant u]
            else (case u of Seq vs \<Rightarrow> Inr (map (\<lambda>v. constant (Scalar v)) vs)
                          | Scalar _ \<Rightarrow> Inl TypeError)) of
        Inl e \<Rightarrow> Inl e
      | Inr controls \<Rightarrow>
          (let output = sim_run state controls ratios
           in case column output 13 of
                Inl e \<Rightarrow> Inl e
              | Inr drag \<Rightarrow>
                  (let time = map (\<lambda>row. row ! 0) output;
                       vel = map (\<lambda>row. row ! 7) output;
                       drag_ref = map (ref_drag reference) vel;
                       integrand = map2 (\<lambda>d dref. 1 * (d - dref)\<^sup>2) drag drag_ref
                   in Inr (trapz integrand time))))"

text \<open>
  \<open>optimize\<close>.  \<open>minimize\<close> and \<open>minimize_scalar\<close> of scipy are
  parameters, given the objective, the start or the bounds, and returning the
  attribute \<open>x\<close> of their result.
\<close>

definition optimize ::
  "(control_options \<Rightarrow> real list \<Rightarrow> pyarg list \<Rightarrow> 'r \<Rightarrow> real list list) \<Rightarrow>
   ((pyarg \<Rightarrow> error + real) \<Rightarrow> real list \<Rightarrow> (real \<times> real) list \<Rightarrow> error + real list) \<Rightarrow>
   ((pyarg \<Rightarrow> error + real) \<Rightarrow> real \<times> real \<Rightarrow> error + real) \<Rightarrow>
   real list \<Rightarrow> control_options \<Rightarrow> (real \<times> real) list \<Rightarrow> 'r \<Rightarrow> references \<Rightarrow>
   error + OptimizeResult" where
  "optimize simulation minimize minimize_scalar current_state opts control_bounds ratios reference =
     (let sim = simulation opts;
          guess = replicate (nat (opt_N opts)) (pi / 6)
      in if opt_N opts > 1 then
           (let scalar = False
            in case minimize (\<lambda>u. cost u sim current_state ratios reference scalar)
                      guess control_bounds of
                 Inl e \<Rightarrow> Inl e
               | Inr xs \<Rightarrow> Inr (OptimizeResult (Seq xs)))
         else
           (let scalar = True
            in case control_bounds of
                 [] \<Rightarrow> Inl IndexError
               | b # _ \<Rightarrow>
                   (case minimize_scalar (\<lambda>u. cost u sim current_state ratios reference scalar) b of
                      Inl e \<Rightarrow> Inl e
                    | Inr xv \<Rightarrow> Inr (OptimizeResult (Scalar xv)))))"

definition controller ::
  "(control_options \<Rightarrow> real list \<Rightarrow> pyarg list \<Rightarrow> 'r \<Rightarrow> real list list) \<Rightarrow>
   ((pyarg \<Rightarrow> error + real) \<Rightarrow> real list \<Rightarrow> (real \<times> real) list \<Rightarrow> error + real list) \<Rightarrow>
   ((pyarg \<Rightarrow> error + real) \<Rightarrow> real \<times> real \<Rightarrow> error + real) \<Rightarrow>
   control_options \<Rightarrow> real \<times> real \<Rightarrow> references \<Rightarrow> 'r controller_kwargs \<Rightarrow> error + pyarg" where
  "controller simulation minimize minimize_scalar opts control_bounds refs kwargs =
     (let bounds = replicate (nat (opt_N opts)) control_bounds
      in case optimize simulation minimize minimize_scalar (kw_current_state kwargs) opts bounds
                (kw_aero_ratios kwargs) refs of
           Inl e \<Rightarrow> Inl e
         | Inr sol \<Rightarrow>
             (let vf = lateral (kw_velocity kwargs) (kw_drag kwargs) (kw_fpa kwargs) (opt_T opts)
              in if opt_N opts > 1 then
                   (case sol_x sol of
                      Seq (x0 # _) \<Rightarrow> Inr (Scalar (x0 * sgn (ref_bank refs vf)))
                    | _ \<Rightarrow> Inl IndexError)
                 else
                   (case sol_x sol of
                      Scalar xv \<Rightarrow> Inr (Scalar (xv * sgn (ref_bank refs vf)))
                    | Seq xs \<Rightarrow> Inr (Seq (map (\<lambda>xv. xv * sgn (ref_bank refs vf)) xs)))))"

section \<open>The equations of motion as the specification writes them\<close>

text \<open>
  The right-hand sides of section 4.1 of the specification, for a state
  \<open>x = (r, \<theta>, \<phi>, v, \<gamma>, \<psi>, s, m)\<close>, bank angle \<open>\<sigma>\<close>, gravity
  \<open>g\<close>, lift \<open>L\<close>, drag \<open>D\<close>, planet radius and mass flow.
\<close>

definition spec_3dof ::
  "real \<Rightarrow> real \<Rightarrow> real \<Rightarrow> real \<Rightarrow> real \<Rightarrow> real list \<Rightarrow> real \<Rightarrow> real list" where
  "spec_3dof R_planet g L D mass_flow x sigma =
     (case x of
        [r, theta, phi, v, gamma, psi, s, m] \<Rightarrow>
          [v * sin gamma,
           v * cos gamma * cos psi / (r * cos phi),
           v * cos gamma * sin psi / r,
           - D - g * sin gamma,
           (L / v) * cos sigma + cos gamma * (v / r - g / v),
           - (L * sin sigma) / (v * cos gamma) - (v * cos gamma * cos psi * tan phi) / r,
           - (v / r) * R_planet * cos gamma,
           mass_flow]
      | _ \<Rightarrow> [])"

section \<open>Operations on an instance\<close>

text \<open>
  The methods of \<open>Entry\<close> that can be called on an instance, and the instance
  each leaves behind.  Only \<open>update_ratios\<close> and \<open>ignite\<close> assign to an
  attribute.
\<close>

datatype operation =
    Op_update_ratios real real
  | Op_ignite
  | Op_dynamics control
  | Op_altitude real bool
  | Op_energy "real list" "real list" bool
  | Op_aeroforces "real list" "real list"

fun apply_operation :: "Entry \<Rightarrow> operation \<Rightarrow> Entry" where
  "apply_operation self (Op_update_ratios lr dr) = update_ratios self lr dr"
| "apply_operation self Op_ignite = ignite self"
| "apply_operation self (Op_dynamics u) = self"
| "apply_operation self (Op_altitude r km) = self"
| "apply_operation self (Op_energy r v Normalized) = self"
| "apply_operation self (Op_aeroforces r v) = self"

section \<open>Concrete inputs\<close>

definition example_planet :: Planet where
  "example_planet = \<lparr>radius = 1, mu = 1, omega = Number 1,
     atmosphere = (\<lambda>h. (1, 1)), range_km = (\<lambda>lon0 lat0 heading0 lonc latc. (lonc, latc))\<rparr>"

definition example_vehicle :: EntryVehicle where
  "example_vehicle = \<lparr>area = 1, mass = 1, ThrustApplied = 1,
     aerodynamic_coefficients = (\<lambda>M. (1, 1)), mdot = (\<lambda>throttle. - throttle)\<rparr>"

definition example_entry :: Entry where
  "example_entry = \<lparr>planet = example_planet, vehicle = example_vehicle, powered = False,
     drag_ratio = 1, lift_ratio = 1, dyn_model = Some Entry_3dof\<rparr>"

section \<open>Profiles in normalised units\<close>






text \<open>
  A stand-in for \<open>odeint\<close> in concrete evaluations: it evaluates the
  derivative at the initial state, lets an exception of that call escape, and
  otherwise returns one straight-line state per time.
\<close>

definition example_odeint ::
  "(real list \<Rightarrow> real \<Rightarrow> error + real list) \<Rightarrow> real list \<Rightarrow> real list \<Rightarrow> error + real list list" where
  "example_odeint f x0 time =
     (case f x0 0 of
        Inl e \<Rightarrow> Inl e
      | Inr dx \<Rightarrow> Inr (map (\<lambda>t. map2 (\<lambda>xi di. xi + t * di) x0 dx) time))"

section \<open>The equations of motion\<close>

text \<open>
  C1.  For a state \<open>x = (r, \<theta>, \<phi>, v, \<gamma>, \<psi>, s, m)\<close> with \<open>v > 0\<close>,
  \<open>|\<gamma>| < \<pi>/2\<close>, \<open>|\<phi>| < \<pi>/2\<close> and a control \<open>(\<sigma>, throttle, c)\<close>,
  the derivative returned by \<open>__entry_3dof\<close> is the right-hand side of the
  specification's equations with \<open>g = \<mu>/r\<^sup>2\<close>, where lift and drag are the
  aerodynamic forces at radius \<open>r\<close> and speed \<open>v\<close> (altitude
  \<open>r - R\<close>, Mach \<open>v/a\<close>), as \<open>aeroforces\<close> computes them, multiplied by
  \<open>lift_ratio\<close> and \<open>drag_ratio\<close>.
\<close>

theorem entry_3dof_equations:
  assumes "0 < v" and "\<bar>gamma\<bar> < pi / 2" and "\<bar>phi\<bar> < pi / 2"
  shows "\<exists>L0 D0.
           aeroforces self [r] [v] = Inr ([L0], [D0]) \<and>
           entry_3dof self [r, theta, phi, v, gamma, psi, s, m] t (Vec [sigma, throttle, c]) =
             Inr (spec_3dof (radius (planet self)) (mu (planet self) / r\<^sup>2)
                    (L0 * lift_ratio self) (D0 * drag_ratio self)
                    (mdot (vehicle self) throttle)
                    [r, theta, phi, v, gamma, psi, s, m] sigma)"
  by (simp add: aeroforces_def entry_3dof_def spec_3dof_def Let_def split: prod.splits)

theorem entry_3dof_equations_witness:
  "\<exists>L0 D0.
     aeroforces example_entry [2] [1] = Inr ([L0], [D0]) \<and>
     entry_3dof example_entry [2, 0, 0, 1, 0, 0, 0, 1] 0 (Vec [0, 0, 0]) =
       Inr (spec_3dof (radius (planet example_entry)) (mu (planet example_entry) / 2\<^sup>2)
              (L0 * lift_ratio example_entry) (D0 * drag_ratio example_entry)
              (mdot (vehicle example_entry) 0)
              [2, 0, 0, 1, 0, 0, 0, 1] 0)"
  using entry_3dof_equations [of 1 0 0 example_entry 2 0 0 0 1 0 0 0 0] by simp

text \<open>
  C2.  The rotating-planet mode is meant to return the non-rotating derivative
  plus a correction in the flight-path-angle and heading components.  The
  method never returns: for every planet, state, time and control it raises.
  With a stored rotation rate the call \<open>self.planet.omega(...)\<close> raises
  TypeError; with a callable the product \<open>2*self.planet.omega\<close> does; and the
  name \<open>control_fun\<close> in the last line is unbound.
\<close>

theorem entry_vinhs_always_raises: "isl (entry_vinhs self x t u)"
  by (simp add: entry_vinhs_def attr_times_def attr_call_def control_fun_def
      split: list.splits attr.splits sum.splits)

lemma entry_vinhs_stored_rate:
  "omega (planet self) = Number w \<Longrightarrow>
   entry_vinhs self [r, theta, phi, v, gamma, psi, s, m] t u = Inl TypeError"
  by (simp add: entry_vinhs_def attr_times_def attr_call_def)

lemma dynamics_Coriolis_raises:
  "Entry_init P V True 3 Pw = Inr (self, out) \<Longrightarrow> isl (dynamics self u x t)"
  by (auto simp add: Entry_init_def dynamics_def call_dyn_model_def Let_def
      entry_vinhs_def attr_times_def attr_call_def control_fun_def
      split: list.splits attr.splits sum.splits)

section \<open>Construction\<close>

text \<open>
  C3, as stated: constructing an \<open>Entry\<close> with a \<open>DegFreedom\<close> other than
  3 raises at construction time.  With \<open>DegFreedom = 4\<close> the constructor
  returns an object.
\<close>

theorem Entry_init_other_value_counterexample:
  "\<not> isl (Entry_init example_planet example_vehicle False 4 False)"
  by (simp add: Entry_init_def)

text \<open>
  C3, amended.  \<open>DegFreedom = 2\<close> raises at construction time.  Any value
  other than 2 and 3 prints the message and returns an object whose dynamics
  model is unset: no mode is chosen in its place, and every evaluation of a
  dynamics function of that object raises AttributeError.
\<close>

theorem Entry_init_invalid_DegFreedom:
  "Entry_init P V C 2 Pw = Inl AttributeError \<and>
   (DegFreedom \<noteq> 2 \<and> DegFreedom \<noteq> 3 \<longrightarrow>
      (\<exists>self. Entry_init P V C DegFreedom Pw =
                 Inr (self, [''Inapproriate number of degrees of freedom.'']) \<and>
               dyn_model self = None \<and>
               (\<forall>u x t. dynamics self u x t = Inl AttributeError)))"
  by (auto simp add: Entry_init_def dynamics_def call_dyn_model_def Let_def)

theorem Entry_init_invalid_DegFreedom_witness:
  "Entry_init example_planet example_vehicle False 2 False = Inl AttributeError \<and>
   (4::int) \<noteq> 2 \<and> (4::int) \<noteq> 3 \<and>
   (\<exists>self. Entry_init example_planet example_vehicle False 4 False =
              Inr (self, [''Inapproriate number of degrees of freedom.'']) \<and>
            dyn_model self = None \<and>
            (\<forall>u x t. dynamics self u x t = Inl AttributeError))"
  using Entry_init_invalid_DegFreedom [of example_planet example_vehicle False False 4] by simp

section \<open>Powered flight\<close>

lemma apply_operation_powered: "powered self \<Longrightarrow> powered (apply_operation self op)"
  by (cases op) (simp_all add: update_ratios_def ignite_def)

lemma foldl_apply_operation_powered:
  "powered self \<Longrightarrow> powered (foldl apply_operation self ops)"
  by (induction ops arbitrary: self) (simp_all add: apply_operation_powered)

lemma apply_operation_vehicle: "vehicle (apply_operation self op) = vehicle self"
  by (cases op) (simp_all add: update_ratios_def ignite_def)

lemma foldl_apply_operation_vehicle:
  "vehicle (foldl apply_operation self ops) = vehicle self"
  by (induction ops arbitrary: self) (simp_all add: apply_operation_vehicle)

text \<open>
  C9.  After \<open>ignite\<close>, whatever methods are called on the instance
  afterwards, it is powered,
  and the dynamics function it produces returns the derivative of the dynamics
  model plus the thrust term, which is nonzero only in the components of speed,
  flight-path angle and mass.
\<close>

theorem ignite_irreversible:
  "powered (foldl apply_operation (ignite self) ops) \<and>
   (call_dyn_model (foldl apply_operation (ignite self) ops)
        [r, theta, phi, v, gamma, psi, s, m] t (Vec [sigma, throttle, thrustAngle]) = Inr d \<longrightarrow>
    dynamics (foldl apply_operation (ignite self) ops) (Vec [sigma, throttle, thrustAngle])
        [r, theta, phi, v, gamma, psi, s, m] t =
      Inr (vec_add d
        [0, 0, 0,
         ThrustApplied (vehicle self) * throttle * cos (thrustAngle - gamma) / m,
         ThrustApplied (vehicle self) * throttle * sin (thrustAngle - gamma) / (m * v),
         0, 0,
         mdot (vehicle self) throttle]))"
proof -
  let ?e = "foldl apply_operation (ignite self) ops"
  have p: "powered ?e"
    by (rule foldl_apply_operation_powered) (simp add: ignite_def)
  have v: "vehicle ?e = vehicle self"
    by (simp add: foldl_apply_operation_vehicle ignite_def)
  show ?thesis
    using p by (simp add: dynamics_def thrust_3dof_def v)
qed

theorem ignite_irreversible_witness:
  "powered (foldl apply_operation (ignite example_entry) [Op_update_ratios 2 3, Op_dynamics (Vec [0, 1, 0])]) \<and>
   dynamics (foldl apply_operation (ignite example_entry) [Op_update_ratios 2 3, Op_dynamics (Vec [0, 1, 0])])
       (Vec [0, 1, 0]) [2, 0, 0, 1, 0, 0, 0, 1] 0 =
     Inr [0, 1 / 2, 0, - 3 / 2 + 1, 1 + (1 / 2 - 1 / 4), 0, - 1 / 2, - 2]"
  using ignite_irreversible [of example_entry "[Op_update_ratios 2 3, Op_dynamics (Vec [0, 1, 0])]"
      2 0 0 1 0 0 0 1 0 0 1 0 "[0, 1 / 2, 0, - 3 / 2, 1 + (1 / 2 - 1 / 4), 0, - 1 / 2, - 1]"]
  by (simp add: call_dyn_model_def entry_3dof_def example_entry_def example_planet_def
      example_vehicle_def update_ratios_def ignite_def vec_add_def power2_eq_square)

section \<open>Aerodynamic forces and the ratio filter\<close>

lemma aeroforces_loop_ratios:
  "aeroforces_loop (self\<lparr>drag_ratio := dr, lift_ratio := lr\<rparr>) v i hs = aeroforces_loop self v i hs"
  by (induction hs arbitrary: i) (simp_all add: Let_def split: prod.splits)

lemma aeroforces_update_ratios:
  "aeroforces (update_ratios self lr dr) r v = aeroforces self r v"
  by (simp add: aeroforces_def update_ratios_def aeroforces_loop_ratios)

text \<open>
  C10.  \<open>aeroforces\<close> does not read the stored ratios: two instances that
  differ only by \<open>update_ratios\<close> return the same lift and drag.  Hence the
  filter derivative is the same whatever ratios the model and navigation
  instances store, and the measured ratio that \<open>__filterUpdate\<close> hands to the
  filter does not depend on the ratio estimates \<open>x[16]\<close> and \<open>x[17]\<close>
  either (the filter is replaced by the projection to its measured value).
\<close>

theorem aeroforces_ignores_ratios:
  "aeroforces (update_ratios self lr dr) r v = aeroforces self r v \<and>
   filterUpdate fm (sys\<lparr>model := update_ratios (model sys) a b, nav := update_ratios (nav sys) c d\<rparr>) x t =
     filterUpdate fm sys x t \<and>
   filterUpdate (\<lambda>currentValue measuredValue g. measuredValue) sys (x[16 := RL, 17 := RD]) t =
     filterUpdate (\<lambda>currentValue measuredValue g. measuredValue) sys x t"
  by (simp add: aeroforces_update_ratios filterUpdate_def Let_def split: sum.splits prod.splits)

theorem aeroforces_ignores_ratios_witness:
  "aeroforces (update_ratios example_entry 2 3) [2] [1] = aeroforces example_entry [2] [1] \<and>
   filterUpdate FadingMemory
     (\<lparr>model = example_entry, truth = example_entry, nav = example_entry, gain = 1\<rparr>
        \<lparr>model := update_ratios example_entry 2 3, nav := update_ratios example_entry 4 5\<rparr>)
     [2, 0, 0, 1, 0, 0, 0, 1, 2, 0, 0, 1, 0, 0, 0, 1, 1, 1] 0 = Inr [0, 0]"
proof -
  have "filterUpdate FadingMemory
      \<lparr>model = example_entry, truth = example_entry, nav = example_entry, gain = 1\<rparr>
      [2, 0, 0, 1, 0, 0, 0, 1, 2, 0, 0, 1, 0, 0, 0, 1, 1, 1] 0 = Inr [0, 0]"
    by (simp add: filterUpdate_def aeroforces_def example_entry_def example_planet_def
        example_vehicle_def FadingMemory_def Let_def)
  then show ?thesis
    using aeroforces_ignores_ratios [where self = example_entry and lr = 2 and dr = 3
        and r = "[2]" and v = "[1]" and fm = FadingMemory
        and sys = "\<lparr>model = example_entry, truth = example_entry, nav = example_entry, gain = 1\<rparr>"
        and a = 2 and b = 3 and c = 4 and d = 5
        and x = "[2, 0, 0, 1, 0, 0, 0, 1, 2, 0, 0, 1, 0, 0, 0, 1, 1, 1]" and t = 0
        and RL = 1 and RD = 1]
    by simp
qed

section \<open>Scalar and sequence arguments\<close>

lemma HEPBank_scalar:
  "HEPBank (Scalar t) t1 t2 t3 minBank maxBank = Scalar (HEPBank_at t t1 t2 t3 minBank maxBank)"
  by (simp add: HEPBank_def as_sequence_def return_bank_def)


lemma HEPBankReduced_scalar:
  "HEPBankReduced (Scalar t) t1 t2 minBank maxBank = Scalar (HEPBankReduced_at t t1 t2 minBank maxBank)"
  by (simp add: HEPBankReduced_def as_sequence_def return_bank_def)



lemma HEPBankReducedSmooth_scalar:
  "HEPBankReducedSmooth (Scalar t) t1 t2 minBank maxBank =
     Seq [HEPBankReducedSmooth_at t t1 t2 minBank maxBank]"
  by (simp add: HEPBankReducedSmooth_def as_sequence_def)

text \<open>
  C7.  \<open>HEPBank\<close> and \<open>HEPBankReduced\<close> return a number for a number and
  a sequence of the same length for a sequence, as the lemmas above state.
  \<open>HEPBankReducedSmooth\<close> returns a one-element list for a number: at
  \<open>t = 50\<close> with switch times 71 and 113 it returns \<open>[maxBank]\<close> where
  \<open>HEPBankReduced\<close> returns \<open>maxBank\<close>.
\<close>

theorem HEPBankReducedSmooth_scalar_returns_list:
  "HEPBankReducedSmooth (Scalar 50) 71 113 default_minBank default_maxBank = Seq [default_maxBank] \<and>
   HEPBankReduced (Scalar 50) 71 113 default_minBank default_maxBank = Scalar default_maxBank"
  by (simp add: HEPBankReducedSmooth_def HEPBankReduced_def as_sequence_def return_bank_def
      HEPBankReducedSmooth_at_def HEPBankReduced_at_def)

section \<open>The feasibility penalty\<close>

text \<open>
  C4, as stated: the penalty is zero exactly for non-negative, strictly
  ascending times, and otherwise grows with the violation.  The times
  \<open>(1, 1, 2)\<close> are not strictly ascending and cost nothing, and the
  violations \<open>(-1, 2, 3)\<close> and \<open>(-2, 2, 3)\<close> cost the same.
\<close>

theorem checkFeasibility_counterexample:
  "\<not> ((1::real) < 1) \<and> checkFeasibility [1, 1, 2] (- 1) = 0 \<and>
   checkFeasibility [- 1, 2, 3] (- 1) = checkFeasibility [- 2, 2, 3] (- 1)"
  by (simp add: checkFeasibility_def diff_def)

text \<open>
  C4, amended.  With the default sign, the penalty of \<open>(t1, t2, t3)\<close> is
  zero exactly when \<open>0 \<le> t1 \<le> t2 \<le> t3\<close>.  Otherwise it is
  \<open>200000 * V\<close> raised to at least \<open>10000000\<close>, where \<open>V\<close> is the sum
  of the amounts by which a time precedes its predecessor and of the amounts
  by which a time is negative; so it is positive and never decreases when
  \<open>V\<close> grows.
\<close>

theorem checkFeasibility_penalty:
  "checkFeasibility [t1, t2, t3] (- 1) =
     (if 0 \<le> t1 \<and> t1 \<le> t2 \<and> t2 \<le> t3 then 0
      else max (200000 * (max 0 (t1 - t2) + max 0 (t2 - t3) + max 0 (- t1) + max 0 (- t2) + max 0 (- t3)))
             10000000) \<and>
   (checkFeasibility [t1, t2, t3] (- 1) = 0) = (0 \<le> t1 \<and> t1 \<le> t2 \<and> t2 \<le> t3)"
  by (simp add: checkFeasibility_def diff_def max_def abs_if)

theorem checkFeasibility_penalty_witness:
  "checkFeasibility [1, 2, 3] (- 1) = 0 \<and> checkFeasibility [3, 2, 1] (- 1) = 10000000 \<and>
   checkFeasibility [100, 0, 0] (- 1) = 20000000"
  using checkFeasibility_penalty [of 1 2 3] checkFeasibility_penalty [of 3 2 1]
    checkFeasibility_penalty [of 100 0 0]
  by simp

lemma checkFeasibility_nonzero:
  "checkFeasibility T sgn' \<noteq> 0 \<Longrightarrow> 10000000 \<le> checkFeasibility T sgn'"
  by (simp add: checkFeasibility_def Let_def split: if_splits)

section \<open>The cost of a switch-time vector\<close>

text \<open>
  An infeasible vector returns its penalty and \<open>odeint\<close> is not called.
\<close>

lemma HEPCost_short_circuit:
  "checkFeasibility T (- 1) \<noteq> 0 \<Longrightarrow>
   HEPCost odeint findTriggerPoint T x0 entry target bank getIV (\<lambda>T. checkFeasibility T (- 1)) =
     (0, Inr (checkFeasibility T (- 1)))"
  using checkFeasibility_nonzero [of T "- 1"] by (simp add: HEPCost_def Let_def)

text \<open>
  If the integration returns an array \<open>X\<close> and the row before the trigger
  point exists, the result is the weighted altitude of that row plus the
  distance to the target.
\<close>

lemma HEPCost_terminal_cost:
  assumes "check T \<le> 300"
    and "odeint (dynamics entry (Fun (\<lambda>x t. bank (Scalar (getIV x t)) T))) x0 (linspace 0 450 1000) = Inr X"
    and "py_index X (findTriggerPoint X (linspace 0 450 1000) - 1) = Inr row"
    and "2 < length row" and "5 < length x0"
    and "range_km (planet entry) (x0 ! 1) (x0 ! 2) (x0 ! 5) (row ! 1) (row ! 2) = (dr, cr)"
  shows "HEPCost odeint findTriggerPoint T x0 entry target bank getIV check =
     (1, Inr (- ((row ! 0 - radius (planet entry)) / 1000) * (8 / 10000000)
              + sqrt ((DR target - dr)\<^sup>2 + (CR target - cr)\<^sup>2)))"
  using assms by (simp add: HEPCost_def Let_def altitude_def)

text \<open>
  The derivative function that \<open>HEPCost\<close> hands to \<open>odeint\<close> is
  \<open>entry.dynamics(hep)\<close> with \<open>hep\<close> a function of state and time.  Both
  dynamic models unpack their control as a sequence, so this derivative raises
  at every state and time, for every instance.
\<close>

lemma dynamics_function_control_raises: "isl (dynamics entry (Fun h) x t)"
  by (simp add: dynamics_def call_dyn_model_def entry_3dof_def entry_vinhs_def attr_times_def
      attr_call_def control_fun_def thrust_3dof_def
      split: option.splits dyn_model.splits list.splits attr.splits sum.splits)

text \<open>
  C6.  For a vector that passes the feasibility test, \<open>HEPCost\<close> is meant to
  return the terminal cost.  With any integrator that evaluates the derivative
  at the initial state and time and lets its exception escape, \<open>HEPCost\<close>
  raises instead, after its one call of \<open>odeint\<close>.
\<close>

theorem HEPCost_feasible_raises:
  assumes "check T \<le> 300"
    and "\<forall>f. isl (f x0 0) \<longrightarrow> isl (odeint f x0 (linspace 0 450 1000))"
  shows "\<exists>e. HEPCost odeint findTriggerPoint T x0 entry target bank getIV check = (1, Inl e)"
proof -
  let ?f = "dynamics entry (Fun (\<lambda>x t. bank (Scalar (getIV x t)) T))"
  have "isl (?f x0 0)" by (rule dynamics_function_control_raises)
  with assms(2) have "isl (odeint ?f x0 (linspace 0 450 1000))" by blast
  then obtain e where "odeint ?f x0 (linspace 0 450 1000) = Inl e"
    by (cases "odeint ?f x0 (linspace 0 450 1000)") simp_all
  with assms(1) show ?thesis by (simp add: HEPCost_def Let_def)
qed

theorem HEPCost_feasible_raises_witness:
  "checkFeasibility [50, 100, 133] (- 1) \<le> 300 \<and>
   (\<exists>e. HEPCost example_odeint (\<lambda>X time. 1) [50, 100, 133] [2, 0, 0, 1, 0, 0, 0, 1] example_entry
          \<lparr>DR = 0, CR = 0\<rparr> HEPBank_star (\<lambda>x t. t) (\<lambda>T. checkFeasibility T (- 1)) = (1, Inl e))"
proof -
  have c: "checkFeasibility [50, 100, 133] (- 1) \<le> 300"
    by (simp add: checkFeasibility_def diff_def)
  have o: "\<forall>f. isl (f [2, 0, 0, 1, 0, 0, 0, 1] 0) \<longrightarrow>
             isl (example_odeint f [2, 0, 0, 1, 0, 0, 0, 1] (linspace 0 450 1000))"
    by (simp add: example_odeint_def split: sum.splits)
  show ?thesis
    using c HEPCost_feasible_raises [of "\<lambda>T. checkFeasibility T (- 1)" "[50, 100, 133]"
        "[2, 0, 0, 1, 0, 0, 0, 1]" example_odeint "\<lambda>X time. 1" example_entry "\<lparr>DR = 0, CR = 0\<rparr>"
        HEPBank_star "\<lambda>x t. t", OF c o]
    by simp
qed

section \<open>The receding-horizon controller\<close>

text \<open>
  C5.  On the scalar path (\<open>N = 1\<close>) and on the vector path (\<open>N > 1\<close>),
  when the optimizer returns, \<open>controller\<close> returns the optimized value of the
  first segment times the sign of the reference bank angle at
  \<open>velocity + T * (drag * sin fpa - 3.7)\<close>.
\<close>

theorem controller_first_segment_signed:
  "(opt_N opts = 1 \<and>
    optimize simulation minimize minimize_scalar (kw_current_state kwargs) opts [control_bounds]
      (kw_aero_ratios kwargs) refs = Inr (OptimizeResult (Scalar x1)) \<longrightarrow>
    controller simulation minimize minimize_scalar opts control_bounds refs kwargs =
      Inr (Scalar (x1 * sgn (ref_bank refs
        (kw_velocity kwargs + opt_T opts * (kw_drag kwargs * sin (kw_fpa kwargs) - 3.7)))))) \<and>
   (opt_N opts > 1 \<and>
    optimize simulation minimize minimize_scalar (kw_current_state kwargs) opts
      (replicate (nat (opt_N opts)) control_bounds) (kw_aero_ratios kwargs) refs =
        Inr (OptimizeResult (Seq (x1 # rest))) \<longrightarrow>
    controller simulation minimize minimize_scalar opts control_bounds refs kwargs =
      Inr (Scalar (x1 * sgn (ref_bank refs
        (kw_velocity kwargs + opt_T opts * (kw_drag kwargs * sin (kw_fpa kwargs) - 3.7))))))"
  by (simp add: controller_def lateral_def Let_def)

theorem controller_first_segment_signed_witness:
  "controller (\<lambda>opts state controls (ratios::unit). []) (\<lambda>f guess bounds. Inr (map fst bounds))
      (\<lambda>f b. Inr (fst b)) \<lparr>opt_N = 1, opt_T = 5, opt_dt = 5\<rparr> (1 / 2, 1)
      \<lparr>ref_bank = (\<lambda>v. - 1), ref_drag = (\<lambda>v. 0)\<rparr>
      \<lparr>kw_current_state = [], kw_aero_ratios = (), kw_velocity = 100, kw_drag = 0, kw_fpa = 0\<rparr>
     = Inr (Scalar (- 1 / 2)) \<and>
   controller (\<lambda>opts state controls (ratios::unit). []) (\<lambda>f guess bounds. Inr (map fst bounds))
      (\<lambda>f b. Inr (fst b)) \<lparr>opt_N = 2, opt_T = 5, opt_dt = 5 / 2\<rparr> (1 / 2, 1)
      \<lparr>ref_bank = (\<lambda>v. - 1), ref_drag = (\<lambda>v. 0)\<rparr>
      \<lparr>kw_current_state = [], kw_aero_ratios = (), kw_velocity = 100, kw_drag = 0, kw_fpa = 0\<rparr>
     = Inr (Scalar (- 1 / 2))"
  using controller_first_segment_signed [of "\<lparr>opt_N = 1, opt_T = 5, opt_dt = 5\<rparr>"
      "\<lambda>opts state controls (ratios::unit). []" "\<lambda>f guess bounds. Inr (map fst bounds)"
      "\<lambda>f b. Inr (fst b)"
      "\<lparr>kw_current_state = [], kw_aero_ratios = (), kw_velocity = 100, kw_drag = 0, kw_fpa = 0\<rparr>"
      "(1 / 2, 1)" "\<lparr>ref_bank = (\<lambda>v. - 1), ref_drag = (\<lambda>v. 0)\<rparr>" "1 / 2" "[]"]
    controller_first_segment_signed [of "\<lparr>opt_N = 2, opt_T = 5, opt_dt = 5 / 2\<rparr>"
      "\<lambda>opts state controls (ratios::unit). []" "\<lambda>f guess bounds. Inr (map fst bounds)"
      "\<lambda>f b. Inr (fst b)"
      "\<lparr>kw_current_state = [], kw_aero_ratios = (), kw_velocity = 100, kw_drag = 0, kw_fpa = 0\<rparr>"
      "(1 / 2, 1)" "\<lparr>ref_bank = (\<lambda>v. - 1), ref_drag = (\<lambda>v. 0)\<rparr>" "1 / 2" "[1 / 2]"]
  by (simp add: optimize_def Let_def numeral_2_eq_2)

section \<open>Magnitude and rate of the bank profiles\<close>

subsection \<open>Change of units\<close>




subsection \<open>Pieces and their composition\<close>



subsection \<open>The smoothed profile, piece by piece\<close>

























subsection \<open>The two ramp profiles\<close>









subsection \<open>Bounds on the loop bodies of the source\<close>










subsection \<open>Grids\<close>




lemma HEPBankReduced_jump:
  assumes "0 < d" "d < 5"
  shows "\<not> \<bar>HEPBankReduced_at (17 / 2 + d) 0 1 default_minBank default_maxBank
            - HEPBankReduced_at (17 / 2) 0 1 default_minBank default_maxBank\<bar> \<le> radians 20 * d"
proof -
  have p: "0 < pi" by simp
  have 1: "HEPBankReduced_at (17 / 2) 0 1 default_minBank default_maxBank = - default_maxBank"
    using p by (simp add: HEPBankReduced_at_def default_minBank_def default_maxBank_def radians_def)
  have 2: "HEPBankReduced_at (17 / 2 + d) 0 1 default_minBank default_maxBank = default_minBank"
    using p assms by (simp add: HEPBankReduced_at_def default_minBank_def default_maxBank_def radians_def)
  have "pi * d < pi * 5" using p assms by simp
  then show ?thesis unfolding 1 2
    using p by (simp add: default_minBank_def default_maxBank_def radians_def)
qed


end
